theory Spec2Isabelle
  imports Complex_Main "HOL-Library.Sublist" "HOL-Library.AList"
begin

section \<open>Python values used by the inventory push\<close>

text \<open>
  The module \<^verbatim>\<open>ecommerce_integrations/shopify/inventory.py\<close> pushes ERP stock levels to
  the shop. Its functions are embedded here one by one, under their own names (without the
  leading underscore, which an Isabelle name cannot carry).

  Strings are ASCII \<open>string\<close>s. An exception is a value: the class that the handlers of
  the module tell apart (\<^verbatim>\<open>ResourceNotFound\<close>) and every other subclass of
  \<^verbatim>\<open>Exception\<close>, each with the text that \<^verbatim>\<open>str(e)\<close> gives.
\<close>

datatype exn = ResourceNotFound string | Exception string

fun exn_message :: "exn \<Rightarrow> string" where
  "exn_message (ResourceNotFound s) = s"
| "exn_message (Exception s) = s"

fun is_not_found :: "exn \<Rightarrow> bool" where
  "is_not_found (ResourceNotFound _) = True"
| "is_not_found (Exception _) = False"

text \<open>
  The values a warehouse mapping holds: the settings table stores the location id as text,
  the orchestrator passes the resolved id on as an integer, and a missing entry is
  \<^verbatim>\<open>None\<close>.
\<close>

datatype pyval = PyNone | PyStr string | PyInt int

subsection \<open>Decimal rendering: \<^verbatim>\<open>str(n)\<close>\<close>

definition digit_char :: "nat \<Rightarrow> char" where
  "digit_char d = char_of (48 + d)"

function str_nat :: "nat \<Rightarrow> string" where
  "str_nat n = (if n < 10 then [digit_char n] else str_nat (n div 10) @ [digit_char (n mod 10)])"
  by pat_completeness auto
termination
  by (relation "measure (\<lambda>n. n)") auto

declare str_nat.simps [simp del]

definition str_int :: "int \<Rightarrow> string" where
  "str_int i = (if i < 0 then CHR ''-'' # str_nat (nat (- i)) else str_nat (nat i))"

text \<open>What an f-string puts in place of \<^verbatim>\<open>{v}\<close>.\<close>

fun py_str :: "pyval \<Rightarrow> string" where
  "py_str PyNone = ''None''"
| "py_str (PyStr s) = s"
| "py_str (PyInt i) = str_int i"

fun py_str_opt :: "string option \<Rightarrow> string" where
  "py_str_opt None = ''None''"
| "py_str_opt (Some s) = s"

text \<open>Truthiness of an optional string: \<^verbatim>\<open>None\<close> and \<^verbatim>\<open>""\<close> are false.\<close>

fun truthy :: "string option \<Rightarrow> bool" where
  "truthy None = False"
| "truthy (Some s) = (s \<noteq> [])"

subsection \<open>Integer parsing: \<^verbatim>\<open>int(v)\<close>\<close>

text \<open>
  The characters of a string are read as the code points 0 to 255. \<^verbatim>\<open>int\<close> on a
  string skips at both ends the blanks of C's \<^verbatim>\<open>isspace\<close> (tab, line feed, vertical
  tab, form feed, carriage return and space) and the two white-space characters above
  127 in that range, next line (133) and no-break space (160), which it first turns into
  spaces; the separators 28 to 31 are not skipped. It accepts one sign, and then reads
  decimal digits in which single underscores may separate digits. A string with more
  digits than the interpreter's limit, 4300 unless it is reconfigured, is refused. On
  \<^verbatim>\<open>None\<close> the cast raises \<^verbatim>\<open>TypeError\<close>, on an integer it is the identity.
  Both callers catch every exception of the conversion and replace it, so a failure is
  \<open>None\<close> here.
\<close>

definition py_isspace :: "char \<Rightarrow> bool" where
  "py_isspace c = (of_char c \<in> {9, 10, 11, 12, 13, 32, 133, 160 :: nat})"

definition py_strip :: "string \<Rightarrow> string" where
  "py_strip s = rev (dropWhile py_isspace (rev (dropWhile py_isspace s)))"

definition digit_val :: "char \<Rightarrow> nat option" where
  "digit_val c = (let k = of_char c :: nat in if 48 \<le> k \<and> k \<le> 57 then Some (k - 48) else None)"

definition int_max_str_digits :: nat where
  "int_max_str_digits = 4300"

definition count_digits :: "string \<Rightarrow> nat" where
  "count_digits s = length (filter (\<lambda>c. digit_val c \<noteq> None) s)"

fun parse_digits :: "nat \<Rightarrow> string \<Rightarrow> nat option" where
  "parse_digits acc [] = Some acc"
| "parse_digits acc [c] =
     (case digit_val c of None \<Rightarrow> None | Some v \<Rightarrow> Some (acc * 10 + v))"
| "parse_digits acc (c # d # ds) =
     (if c = CHR ''_'' then
        (case digit_val d of None \<Rightarrow> None | Some v \<Rightarrow> parse_digits (acc * 10 + v) ds)
      else
        (case digit_val c of None \<Rightarrow> None | Some v \<Rightarrow> parse_digits (acc * 10 + v) (d # ds)))"

definition parse_unsigned :: "string \<Rightarrow> nat option" where
  "parse_unsigned s =
     (case s of [] \<Rightarrow> None
      | c # cs \<Rightarrow>
          (case digit_val c of
             None \<Rightarrow> None
           | Some v \<Rightarrow>
               (case parse_digits v cs of
                  None \<Rightarrow> None
                | Some n \<Rightarrow> if int_max_str_digits < count_digits s then None else Some n)))"

definition py_int_of_str :: "string \<Rightarrow> int option" where
  "py_int_of_str s =
     (case py_strip s of [] \<Rightarrow> None
      | c # cs \<Rightarrow>
          if c = CHR ''-'' then map_option (\<lambda>n. - int n) (parse_unsigned cs)
          else if c = CHR ''+'' then map_option int (parse_unsigned cs)
          else map_option int (parse_unsigned (c # cs)))"

fun py_int :: "pyval \<Rightarrow> int option" where
  "py_int PyNone = None"
| "py_int (PyStr s) = py_int_of_str s"
| "py_int (PyInt i) = Some i"

section \<open>The location resolver\<close>

text \<open>
  The settings document, as far as this module reads it. The mapping method may return
  \<^verbatim>\<open>None\<close>, which \<^verbatim>\<open>or {}\<close> turns into the empty dictionary.
\<close>

record setting =
  get_erpnext_to_integration_wh_mapping :: "(string \<rightharpoonup> pyval) option"

definition or_empty :: "('k \<rightharpoonup> 'v) option \<Rightarrow> ('k \<rightharpoonup> 'v)" where
  "or_empty m = (case m of None \<Rightarrow> Map.empty | Some d \<Rightarrow> d)"

definition no_mapping_msg :: "string option \<Rightarrow> string" where
  "no_mapping_msg default_wh =
     ''No Shopify Location mapping for Default Warehouse: '' @ py_str_opt default_wh"

definition not_numeric_msg :: "pyval \<Rightarrow> string \<Rightarrow> string" where
  "not_numeric_msg v wh =
     ''Shopify Location ID must be numeric. Got '' @ [CHR 0x27] @ py_str v @ [CHR 0x27]
       @ '' for '' @ [CHR 0x27] @ wh @ [CHR 0x27] @ ''.''"

definition get_numeric_location_id :: "setting \<Rightarrow> string option \<Rightarrow> exn + int" where
  "get_numeric_location_id setting default_wh =
     (let erp_to_shop = or_empty (get_erpnext_to_integration_wh_mapping setting) in
      case default_wh of
        None \<Rightarrow> Inl (Exception (no_mapping_msg default_wh))
      | Some wh \<Rightarrow>
          if wh = [] \<or> erp_to_shop wh = None then Inl (Exception (no_mapping_msg default_wh))
          else (case erp_to_shop wh of
                  None \<Rightarrow> Inl (Exception (no_mapping_msg default_wh))
                | Some v \<Rightarrow>
                    (case py_int v of
                       Some n \<Rightarrow> Inr n
                     | None \<Rightarrow> Inl (Exception (not_numeric_msg v wh)))))"

section \<open>Inventory rows and the external collaborators\<close>

text \<open>
  An inventory row is a \<^verbatim>\<open>frappe._dict\<close>: reading a key that is absent gives
  \<^verbatim>\<open>None\<close>, so an optional field is \<open>None\<close> both when the key is absent and when
  its value is \<^verbatim>\<open>None\<close>. The quantities are the numbers the floats stand for.
\<close>

record row =
  ecom_item :: "string option"
  warehouse :: string
  actual_qty :: rat
  reserved_qty :: rat
  variant_id :: "string option"
  shopify_location_id :: "int option"
  status :: "string option"
  failure_reason :: "string option"

text \<open>The part of a shop variant that the push reads.\<close>

record variant =
  inventory_item_id :: "int option"

text \<open>
  Every call of a collaborator is recorded, with its arguments and with what it did
  (the exception it raised, or its normal return), in the order the calls are made.
\<close>

datatype event =
    VariantFind string "exn + variant"
  | InventoryLevelSet "int option" int int "exn option"
  | UpdateSyncStatus "string option" string "exn option"
  | DbCommit "exn option"
  | ShopifyLog string string "exn option"

text \<open>
  The collaborators are black boxes. What a call does may depend on its arguments and on
  everything that happened before it, so each one is a function of the events so far.
  \<open>float_repr\<close> is the text Python prints for a float; a float is the rational number
  it stands for, and the rounding of float arithmetic is left out. The log sink is always
  called with an empty payload and the method name \<^verbatim>\<open>update_inventory_on_shopify\<close>,
  which the log event omits. The session that the decorator of the pusher opens around
  the run is outside the model.
\<close>

record env =
  Variant_find :: "event list \<Rightarrow> string \<Rightarrow> exn + variant"
  InventoryLevel_set :: "event list \<Rightarrow> int option \<Rightarrow> int \<Rightarrow> int \<Rightarrow> exn option"
  update_inventory_sync_status :: "event list \<Rightarrow> string option \<Rightarrow> string \<Rightarrow> exn option"
  db_commit :: "event list \<Rightarrow> exn option"
  create_shopify_log :: "event list \<Rightarrow> string \<Rightarrow> string \<Rightarrow> exn option"
  float_repr :: "rat \<Rightarrow> string"

text \<open>
  Modelled from the spec: \<^verbatim>\<open>cint\<close> is imported from \<^verbatim>\<open>frappe.utils\<close> and its
  code is not part of this repository. The spec calls it the integer cast that truncates
  a fractional quantity; Python's cast truncates towards zero.
\<close>

definition cint :: "rat \<Rightarrow> int" where
  "cint q = (if 0 \<le> q then \<lfloor>q\<rfloor> else \<lceil>q\<rceil>)"

text \<open>
  Modelled from the spec: \<^verbatim>\<open>create_batch\<close> is imported from \<^verbatim>\<open>frappe.utils\<close>
  and its code is not part of this repository. The spec has it group the rows into
  consecutive batches of a fixed size, in their order, the last batch possibly smaller.
  The pusher calls it with size 50 only; size 0 is given no batches here.
\<close>

function create_batch :: "'a list \<Rightarrow> nat \<Rightarrow> 'a list list" where
  "create_batch xs n =
     (if xs = [] \<or> n = 0 then [] else take n xs # create_batch (drop n xs) n)"
  by pat_completeness auto
termination
  by (relation "measure (\<lambda>(xs, n). length xs)") auto

declare create_batch.simps [simp del]

section \<open>The batch logger\<close>

definition newline :: string where
  "newline = [CHR 0x0A]"

fun join :: "string \<Rightarrow> string list \<Rightarrow> string" where
  "join sep [] = []"
| "join sep [x] = x"
| "join sep (x # y # ys) = x @ sep @ join sep (y # ys)"

definition str_int_opt :: "int option \<Rightarrow> string" where
  "str_int_opt l = (case l of None \<Rightarrow> ''None'' | Some i \<Rightarrow> str_int i)"

definition or_empty_str :: "string option \<Rightarrow> string" where
  "or_empty_str r = (case r of None \<Rightarrow> [] | Some s \<Rightarrow> s)"

definition log_line :: "row \<Rightarrow> string" where
  "log_line d =
     py_str_opt (variant_id d) @ '','' @ str_int_opt (shopify_location_id d) @ '',''
       @ py_str_opt (status d) @ '','' @ or_empty_str (failure_reason d)"

definition log_message :: "row list \<Rightarrow> string" where
  "log_message inventory_levels =
     ''variant_id,location_id,status,failure_reason'' @ newline
       @ join newline (map log_line inventory_levels)"

definition success_count :: "row list \<Rightarrow> nat" where
  "success_count inventory_levels =
     length (filter (\<lambda>d. status d = Some ''Success'') inventory_levels)"

definition pct :: "row list \<Rightarrow> rat" where
  "pct inventory_levels =
     of_nat (success_count inventory_levels) / of_nat (max (length inventory_levels) 1)"

definition batch_status :: "row list \<Rightarrow> string" where
  "batch_status inventory_levels =
     (if pct inventory_levels = 1 then ''Success''
      else if pct inventory_levels > 0 then ''Partial Success'' else ''Failed'')"

definition batch_log_text :: "env \<Rightarrow> row list \<Rightarrow> string" where
  "batch_log_text e inventory_levels =
     ''Updated '' @ float_repr e (pct inventory_levels * 100) @ ''% items'' @ newline @ newline
       @ log_message inventory_levels"

text \<open>
  The logger makes one call of the log sink. It has no handler, so an exception of the
  sink leaves the function.
\<close>

definition log_batch_status :: "env \<Rightarrow> row list \<Rightarrow> event list \<Rightarrow> event list \<times> exn option" where
  "log_batch_status e inventory_levels tr =
     (let r = create_shopify_log e tr (batch_status inventory_levels)
                (batch_log_text e inventory_levels)
      in (tr @ [ShopifyLog (batch_status inventory_levels) (batch_log_text e inventory_levels) r],
          r))"

section \<open>The batch pusher\<close>

text \<open>
  \<^verbatim>\<open>_commit_row_and_continue\<close>: the update of the sync time is attempted when the row
  has an ecom item, and whatever it raises is dropped; the commit is outside the handler.
  The result is the new event list and the exception that leaves the function, if any.
\<close>

definition commit_row_and_continue ::
  "env \<Rightarrow> row \<Rightarrow> string \<Rightarrow> event list \<Rightarrow> event list \<times> exn option" where
  "commit_row_and_continue e d synced_on tr =
     (let tr1 = (if truthy (ecom_item d)
                 then tr @ [UpdateSyncStatus (ecom_item d) synced_on
                              (update_inventory_sync_status e tr (ecom_item d) synced_on)]
                 else tr)
      in (tr1 @ [DbCommit (db_commit e tr1)], db_commit e tr1))"

text \<open>
  How the body of the second \<^verbatim>\<open>try\<close> ends: it falls through to the commit after the
  handlers, it leaves the iteration with \<^verbatim>\<open>continue\<close>, or it raises.
\<close>

datatype flow = Next | Continue | Raised exn

definition flow_of :: "exn option \<Rightarrow> flow" where
  "flow_of r = (case r of None \<Rightarrow> Continue | Some x \<Rightarrow> Raised x)"

definition mark_failed :: "string \<Rightarrow> row \<Rightarrow> row" where
  "mark_failed reason d = d\<lparr>status := Some ''Failed'', failure_reason := Some reason\<rparr>"

definition early_exit ::
  "env \<Rightarrow> string \<Rightarrow> string \<Rightarrow> row \<Rightarrow> event list \<Rightarrow> row \<times> event list \<times> flow" where
  "early_exit e synced_on reason d tr =
     (let d1 = mark_failed reason d;
          (tr1, r) = commit_row_and_continue e d1 synced_on tr
      in (d1, tr1, flow_of r))"

definition push_level ::
  "env \<Rightarrow> string \<Rightarrow> int \<Rightarrow> row \<Rightarrow> event list \<Rightarrow> row \<times> event list \<times> flow" where
  "push_level e synced_on item_id d tr =
     (let available = cint (actual_qty d) - cint (reserved_qty d);
          r = InventoryLevel_set e tr (shopify_location_id d) item_id available;
          tr1 = tr @ [InventoryLevelSet (shopify_location_id d) item_id available r]
      in case r of
           Some x \<Rightarrow> (d, tr1, Raised x)
         | None \<Rightarrow>
             (let u = update_inventory_sync_status e tr1 (ecom_item d) synced_on;
                  tr2 = tr1 @ [UpdateSyncStatus (ecom_item d) synced_on u]
              in case u of
                   Some x \<Rightarrow> (d, tr2, Raised x)
                 | None \<Rightarrow> (d\<lparr>status := Some ''Success''\<rparr>, tr2, Next)))"

definition try_body ::
  "env \<Rightarrow> string \<Rightarrow> row \<Rightarrow> event list \<Rightarrow> row \<times> event list \<times> flow" where
  "try_body e synced_on d tr =
     (case variant_id d of
        None \<Rightarrow> early_exit e synced_on ''Missing variant_id in Ecommerce Item mapping.'' d tr
      | Some v \<Rightarrow>
          if v = [] then
            early_exit e synced_on ''Missing variant_id in Ecommerce Item mapping.'' d tr
          else
            (case Variant_find e tr v of
               Inl x \<Rightarrow> (d, tr @ [VariantFind v (Inl x)], Raised x)
             | Inr var \<Rightarrow>
                 (case inventory_item_id var of
                    None \<Rightarrow>
                      early_exit e synced_on
                        (''Shopify variant '' @ v @ '' has no inventory_item_id.'') d
                        (tr @ [VariantFind v (Inr var)])
                  | Some i \<Rightarrow>
                      if i = 0 then
                        early_exit e synced_on
                          (''Shopify variant '' @ v @ '' has no inventory_item_id.'') d
                          (tr @ [VariantFind v (Inr var)])
                      else push_level e synced_on i d (tr @ [VariantFind v (Inr var)]))))"

definition not_found_reason :: "row \<Rightarrow> string" where
  "not_found_reason d =
     ''Variant or Location not found. variant_id='' @ py_str_opt (variant_id d)
       @ '' loc='' @ str_int_opt (shopify_location_id d)"

text \<open>The two handlers of the second \<^verbatim>\<open>try\<close>, and the commit that follows them.\<close>

definition commit_after :: "env \<Rightarrow> row \<Rightarrow> event list \<Rightarrow> row \<times> event list \<times> exn option" where
  "commit_after e d tr = (d, tr @ [DbCommit (db_commit e tr)], db_commit e tr)"

definition handle_not_found ::
  "env \<Rightarrow> string \<Rightarrow> row \<Rightarrow> event list \<Rightarrow> row \<times> event list \<times> exn option" where
  "handle_not_found e synced_on d tr =
     (let u = update_inventory_sync_status e tr (ecom_item d) synced_on;
          tr1 = tr @ [UpdateSyncStatus (ecom_item d) synced_on u]
      in case u of
           Some x \<Rightarrow> (d, tr1, Some x)
         | None \<Rightarrow>
             commit_after e
               (d\<lparr>status := Some ''Not Found'', failure_reason := Some (not_found_reason d)\<rparr>)
               tr1)"

definition handle_exception ::
  "env \<Rightarrow> exn \<Rightarrow> row \<Rightarrow> event list \<Rightarrow> row \<times> event list \<times> exn option" where
  "handle_exception e x d tr = commit_after e (mark_failed (exn_message x) d) tr"

text \<open>\<^verbatim>\<open>int(warehouse_map[d.warehouse])\<close>, with every exception caught.\<close>

definition lookup_location :: "(string \<rightharpoonup> pyval) \<Rightarrow> string \<Rightarrow> int option" where
  "lookup_location warehouse_map wh =
     (case warehouse_map wh of None \<Rightarrow> None | Some v \<Rightarrow> py_int v)"

definition no_location_reason :: "row \<Rightarrow> string" where
  "no_location_reason d = ''No numeric Shopify Location for ERP Warehouse: '' @ warehouse d"

text \<open>
  One iteration of the inner loop. The row is changed in place, so the changed row is
  returned also when an exception leaves the iteration (the third component).
\<close>

definition process_row ::
  "env \<Rightarrow> string \<Rightarrow> (string \<rightharpoonup> pyval) \<Rightarrow> row \<Rightarrow> event list
     \<Rightarrow> row \<times> event list \<times> exn option" where
  "process_row e synced_on warehouse_map d tr =
     (case lookup_location warehouse_map (warehouse d) of
        None \<Rightarrow>
          (let d1 = mark_failed (no_location_reason d) d;
               (tr1, r) = commit_row_and_continue e d1 synced_on tr
           in (d1, tr1, r))
      | Some loc \<Rightarrow>
          (case try_body e synced_on (d\<lparr>shopify_location_id := Some loc\<rparr>) tr of
             (d2, tr2, Continue) \<Rightarrow> (d2, tr2, None)
           | (d2, tr2, Next) \<Rightarrow> commit_after e d2 tr2
           | (d2, tr2, Raised x) \<Rightarrow>
               if is_not_found x then handle_not_found e synced_on d2 tr2
               else handle_exception e x d2 tr2))"

text \<open>The inner loop over one batch stops at the first exception that leaves an iteration.\<close>

fun process_rows ::
  "env \<Rightarrow> string \<Rightarrow> (string \<rightharpoonup> pyval) \<Rightarrow> row list \<Rightarrow> event list
     \<Rightarrow> row list \<times> event list \<times> exn option" where
  "process_rows e synced_on wm [] tr = ([], tr, None)"
| "process_rows e synced_on wm (d # ds) tr =
     (case process_row e synced_on wm d tr of
        (d', tr', Some x) \<Rightarrow> (d' # ds, tr', Some x)
      | (d', tr', None) \<Rightarrow>
          (case process_rows e synced_on wm ds tr' of
             (ds', tr'', r) \<Rightarrow> (d' # ds', tr'', r)))"




section \<open>The eligibility filter\<close>

text \<open>
  The two tables that \<^verbatim>\<open>frappe.get_all\<close> reads, with the columns the filter uses,
  and the queries as the filter puts them. Each query made is recorded.
\<close>

record ecommerce_item =
  ei_name :: string
  integration :: string
  erpnext_item_code :: "string option"

record item =
  item_name :: string
  custom_sync_to_shopify :: int
  disabled :: int

record db =
  ecommerce_item_table :: "ecommerce_item list"
  item_table :: "item list"

datatype query = GetAllEcommerceItem "string list" string | GetAllItem "string list"

definition get_all_ecommerce_item :: "db \<Rightarrow> string list \<Rightarrow> string \<Rightarrow> ecommerce_item list" where
  "get_all_ecommerce_item dbs names module_name =
     filter (\<lambda>r. ei_name r \<in> set names \<and> integration r = module_name)
       (ecommerce_item_table dbs)"

definition get_all_item :: "db \<Rightarrow> string list \<Rightarrow> string list" where
  "get_all_item dbs names =
     map item_name
       (filter (\<lambda>i. item_name i \<in> set names \<and> custom_sync_to_shopify i = 1 \<and> disabled i = 0)
          (item_table dbs))"

text \<open>
  The dictionary comprehension: rows with a code that is not empty, a later row replacing
  an earlier one of the same name. A dictionary is an association list in insertion order.
\<close>

fun dict_of :: "ecommerce_item list \<Rightarrow> (string \<times> string) list \<Rightarrow> (string \<times> string) list" where
  "dict_of [] acc = acc"
| "dict_of (r # rs) acc =
     (case erpnext_item_code r of
        None \<Rightarrow> dict_of rs acc
      | Some c \<Rightarrow> if c = [] then dict_of rs acc else dict_of rs (AList.update (ei_name r) c acc))"

text \<open>\<^verbatim>\<open>ecom_to_item.get(getattr(d, "ecom_item", ""))\<close>: no key is \<^verbatim>\<open>None\<close>.\<close>

definition dict_get :: "(string \<times> string) list \<Rightarrow> string option \<Rightarrow> string option" where
  "dict_get dict k = (case k of None \<Rightarrow> None | Some s \<Rightarrow> map_of dict s)"

definition in_allowed :: "string option \<Rightarrow> string list \<Rightarrow> bool" where
  "in_allowed erp_item allowed_items =
     (case erp_item of None \<Rightarrow> False | Some c \<Rightarrow> c \<in> set allowed_items)"

text \<open>
  \<open>MODULE_NAME\<close> comes from a constants module outside this file and is a parameter.
  The result is the kept rows and the queries made, in order.
\<close>

definition filter_to_flagged_items :: "string \<Rightarrow> db \<Rightarrow> row list \<Rightarrow> row list \<times> query list" where
  "filter_to_flagged_items MODULE_NAME dbs inventory_levels =
     (if inventory_levels = [] then ([], [])
      else
        (let ecom_names = List.map_filter
                            (\<lambda>d. if truthy (ecom_item d) then ecom_item d else None)
                            inventory_levels
         in if ecom_names = [] then ([], [])
            else
              (let ecom_rows = get_all_ecommerce_item dbs ecom_names MODULE_NAME;
                   ecom_to_item = dict_of ecom_rows [];
                   allowed_items = get_all_item dbs (map snd ecom_to_item)
               in (filter (\<lambda>d. in_allowed (dict_get ecom_to_item (ecom_item d)) allowed_items)
                     inventory_levels,
                   [GetAllEcommerceItem ecom_names MODULE_NAME,
                    GetAllItem (map snd ecom_to_item)]))))"

text \<open>
  The filter in the words of the spec: a row is eligible when its ecom-item reference
  resolves, by a lookup restricted to the integration, to an ERP item code, and the item
  of that code is flagged for sync and not disabled.
\<close>

definition sync_enabled :: "db \<Rightarrow> string \<Rightarrow> bool" where
  "sync_enabled dbs code =
     (\<exists>i \<in> set (item_table dbs).
        item_name i = code \<and> custom_sync_to_shopify i = 1 \<and> disabled i = 0)"

definition eligible :: "string \<Rightarrow> db \<Rightarrow> row \<Rightarrow> bool" where
  "eligible MODULE_NAME dbs d =
     (truthy (ecom_item d) \<and>
      (\<exists>r \<in> set (ecommerce_item_table dbs).
         Some (ei_name r) = ecom_item d \<and> integration r = MODULE_NAME
         \<and> (case erpnext_item_code r of
               None \<Rightarrow> False
             | Some code \<Rightarrow> code \<noteq> [] \<and> sync_enabled dbs code)))"

section \<open>Observations on the events, and example inputs\<close>

fun is_set_level :: "event \<Rightarrow> bool" where
  "is_set_level (InventoryLevelSet _ _ _ _) = True"
| "is_set_level _ = False"


text \<open>The commits and the log entries of a run, in order, without the other calls.\<close>

datatype mark = Commit | Log

fun marks :: "event list \<Rightarrow> mark list" where
  "marks [] = []"
| "marks (DbCommit _ # evs) = Commit # marks evs"
| "marks (ShopifyLog _ _ _ # evs) = Log # marks evs"
| "marks (_ # evs) = marks evs"


text \<open>
  The calls that the guarded part of \<^verbatim>\<open>_commit_row_and_continue\<close> (lines 57 to 61)
  makes when it starts after the events \<open>tr\<close>: the sync-time update for a row with an ecom
  item, and nothing for a row without one.
\<close>

definition sync_attempt :: "env \<Rightarrow> row \<Rightarrow> string \<Rightarrow> event list \<Rightarrow> event list" where
  "sync_attempt e d synced_on tr =
     (if truthy (ecom_item d)
      then [UpdateSyncStatus (ecom_item d) synced_on
              (update_inventory_sync_status e tr (ecom_item d) synced_on)]
      else [])"



text \<open>
  A stand-in for the float text in the examples: the integer part and one decimal digit,
  which is what Python prints for a value with at most one decimal.
\<close>

definition repr_one_decimal :: "rat \<Rightarrow> string" where
  "repr_one_decimal q =
     str_int \<lfloor>q\<rfloor> @ ''.'' @ str_nat (nat \<lfloor>(q - of_int \<lfloor>q\<rfloor>) * 10\<rfloor>)"

definition env_all_ok :: env where
  "env_all_ok =
     \<lparr>Variant_find = (\<lambda>tr v. Inr \<lparr>inventory_item_id = Some 7\<rparr>),
      InventoryLevel_set = (\<lambda>tr l i q. None),
      update_inventory_sync_status = (\<lambda>tr a t. None),
      db_commit = (\<lambda>tr. None),
      create_shopify_log = (\<lambda>tr st msg. None),
      float_repr = repr_one_decimal\<rparr>"

definition env_variant_gone :: env where
  "env_variant_gone =
     env_all_ok\<lparr>Variant_find := (\<lambda>tr v. Inl (ResourceNotFound ''Not Found''))\<rparr>"



definition env_commit_fails :: env where
  "env_commit_fails =
     env_all_ok\<lparr>db_commit := (\<lambda>tr. Some (Exception ''database is gone''))\<rparr>"

definition env_sync_fails :: env where
  "env_sync_fails =
     env_variant_gone\<lparr>update_inventory_sync_status :=
                         (\<lambda>tr a t. Some (Exception ''deadlock''))\<rparr>"



definition row_a :: row where
  "row_a =
     \<lparr>ecom_item = Some ''EI-1'', warehouse = ''WH-A'', actual_qty = 107 / 10,
      reserved_qty = 3, variant_id = Some ''V1'', shopify_location_id = None,
      status = None, failure_reason = None\<rparr>"

definition row_b :: row where
  "row_b = row_a\<lparr>ecom_item := Some ''EI-2'', warehouse := ''WH-B''\<rparr>"


definition row_ne :: row where
  "row_ne = row_b\<lparr>ecom_item := None\<rparr>"

definition wm_a :: "string \<rightharpoonup> pyval" where
  "wm_a = [''WH-A'' \<mapsto> PyInt 5]"

definition setting_a :: setting where
  "setting_a = \<lparr>get_erpnext_to_integration_wh_mapping = Some [''WH-A'' \<mapsto> PyStr ''5'']\<rparr>"

definition t0 :: string where
  "t0 = ''2024-05-01 10:00:00''"

definition row_ok :: row where
  "row_ok = row_a\<lparr>shopify_location_id := Some 5, status := Some ''Success''\<rparr>"

definition row_bad :: row where
  "row_bad = row_a\<lparr>shopify_location_id := Some 5, status := Some ''Failed'',
                    failure_reason := Some ''Bad Gateway''\<rparr>"

definition batch4 :: "row list" where
  "batch4 = [row_ok, row_ok, row_bad, row_ok]"

definition db_a :: db where
  "db_a =
     \<lparr>ecommerce_item_table =
        [\<lparr>ei_name = ''EI-1'', integration = ''shopify'', erpnext_item_code = Some ''ITEM-1''\<rparr>,
         \<lparr>ei_name = ''EI-2'', integration = ''shopify'', erpnext_item_code = Some ''ITEM-2''\<rparr>,
         \<lparr>ei_name = ''EI-3'', integration = ''shopify'', erpnext_item_code = None\<rparr>],
      item_table =
        [\<lparr>item_name = ''ITEM-1'', custom_sync_to_shopify = 1, disabled = 0\<rparr>,
         \<lparr>item_name = ''ITEM-2'', custom_sync_to_shopify = 1, disabled = 1\<rparr>]\<rparr>"

definition rows_a :: "row list" where
  "rows_a = [row_a, row_b, row_a\<lparr>ecom_item := Some ''EI-3''\<rparr>, row_a\<lparr>ecom_item := None\<rparr>]"


section \<open>Properties of the location resolver\<close>

lemma sublist_no_mapping: "sublist (py_str_opt w) (no_mapping_msg w)"
  unfolding no_mapping_msg_def by (rule sublist_append_leftI)

lemma sublist_not_numeric_wh: "sublist wh (not_numeric_msg v wh)"
  unfolding not_numeric_msg_def
  by (metis append.assoc sublist_appendI)

lemma sublist_not_numeric_val: "sublist (py_str v) (not_numeric_msg v wh)"
  unfolding not_numeric_msg_def
  by (metis append.assoc sublist_appendI)

lemma py_int_of_str_5: "py_int_of_str ''5'' = Some 5"
  by code_simp

lemma py_int_of_str_abc: "py_int_of_str ''abc'' = None"
  by code_simp

text \<open>
  The separators 28 to 31 are not blanks for the cast, next line and no-break space are,
  underscores separate digits, and a string with more digits than the limit is refused.
\<close>

lemma py_int_of_str_separator:
  "py_int_of_str [CHR 0x1F, CHR ''5''] = None \<and> py_int_of_str [CHR ''5'', CHR 0x1C] = None"
  by code_simp

lemma py_int_of_str_blanks:
  "py_int_of_str [CHR 0x09, CHR ''-'', CHR ''1'', CHR ''_'', CHR ''0'', CHR 0x0A] = Some (- 10)
   \<and> py_int_of_str [CHR 0xA0, CHR ''5'', CHR 0x85] = Some 5"
  by code_simp

lemma parse_unsigned_limit:
  "int_max_str_digits < count_digits s \<Longrightarrow> parse_unsigned s = None"
  by (auto simp add: parse_unsigned_def split: list.splits option.splits)

text \<open>
  Claim C1. The resolver returns \<open>n\<close> exactly when the default warehouse is set and not
  empty, the mapping has an entry for it, and \<^verbatim>\<open>int\<close> of that entry is \<open>n\<close>. It raises
  exactly when the default warehouse is unset, or absent from the mapping, or its entry
  does not parse as an integer. The message of the error contains the warehouse
  identifier, and when the entry does not parse it contains the entry as well.
\<close>

theorem get_numeric_location_id_contract:
  "(\<forall>n. get_numeric_location_id setting default_wh = Inr n \<longleftrightarrow>
      (\<exists>wh v. default_wh = Some wh \<and> wh \<noteq> []
         \<and> or_empty (get_erpnext_to_integration_wh_mapping setting) wh = Some v
         \<and> py_int v = Some n))
   \<and> ((\<exists>x. get_numeric_location_id setting default_wh = Inl x) \<longleftrightarrow>
        (\<not> truthy default_wh
         \<or> (\<exists>wh. default_wh = Some wh
               \<and> or_empty (get_erpnext_to_integration_wh_mapping setting) wh = None)
         \<or> (\<exists>wh v. default_wh = Some wh
               \<and> or_empty (get_erpnext_to_integration_wh_mapping setting) wh = Some v
               \<and> py_int v = None)))
   \<and> (\<forall>x. get_numeric_location_id setting default_wh = Inl x \<longrightarrow>
        sublist (py_str_opt default_wh) (exn_message x)
        \<and> (\<forall>wh v. default_wh = Some wh \<and> wh \<noteq> []
              \<and> or_empty (get_erpnext_to_integration_wh_mapping setting) wh = Some v
              \<longrightarrow> py_int v = None \<and> sublist (py_str v) (exn_message x)))"
  unfolding get_numeric_location_id_def Let_def
  using sublist_no_mapping [of None] sublist_no_mapping [of "Some w" for w]
  by (auto split: option.splits simp: sublist_not_numeric_wh sublist_not_numeric_val)

theorem get_numeric_location_id_contract_witness:
  "get_numeric_location_id setting_a (Some ''WH-A'') = Inr 5"
proof -
  have "or_empty (get_erpnext_to_integration_wh_mapping setting_a) ''WH-A'' = Some (PyStr ''5'')"
    by (simp add: setting_a_def or_empty_def)
  moreover have "py_int (PyStr ''5'') = Some 5"
    by (simp add: py_int_of_str_5)
  ultimately show ?thesis
    using get_numeric_location_id_contract [of setting_a "Some ''WH-A''"]
    by simp
qed

text \<open>The two failing examples of the spec, evaluated.\<close>

lemma get_numeric_location_id_absent:
  "get_numeric_location_id setting_a (Some ''WH-B'')
     = Inl (Exception ''No Shopify Location mapping for Default Warehouse: WH-B'')"
  by (simp add: get_numeric_location_id_def setting_a_def or_empty_def no_mapping_msg_def)

lemma get_numeric_location_id_not_numeric:
  "get_numeric_location_id
     \<lparr>get_erpnext_to_integration_wh_mapping = Some [''WH-A'' \<mapsto> PyStr ''abc'']\<rparr>
     (Some ''WH-A'')
     = Inl (Exception (''Shopify Location ID must be numeric. Got '' @ [CHR 0x27] @ ''abc''
              @ [CHR 0x27] @ '' for '' @ [CHR 0x27] @ ''WH-A'' @ [CHR 0x27] @ ''.''))"
  by (simp add: get_numeric_location_id_def or_empty_def not_numeric_msg_def py_int_of_str_abc)


section \<open>Properties of one row of the batch pusher\<close>




lemma lookup_wm_a: "lookup_location wm_a (warehouse row_a) = Some 5"
  by (simp add: lookup_location_def wm_a_def row_a_def)

lemma lookup_wm_a_row_b: "lookup_location wm_a (warehouse row_b) = None"
  by (simp add: lookup_location_def wm_a_def row_a_def row_b_def)

lemma floor_row_a: "\<lfloor>107 / 10 :: rat\<rfloor> = 10"
  by code_simp




lemma commit_fails_row:
  "process_row env_commit_fails t0 wm_a row_b []
     = (mark_failed (no_location_reason row_b) row_b,
        [UpdateSyncStatus (Some ''EI-2'') t0 None,
         DbCommit (Some (Exception ''database is gone''))],
        Some (Exception ''database is gone''))"
  using lookup_wm_a_row_b
  by (simp add: process_row_def commit_row_and_continue_def Let_def env_commit_fails_def
      env_all_ok_def row_b_def row_a_def mark_failed_def)









lemma push_level_cases:
  "push_level e s i d tr = (d2, tr2, fl) \<Longrightarrow>
     \<exists>r. InventoryLevel_set e tr (shopify_location_id d) i
            (cint (actual_qty d) - cint (reserved_qty d)) = r
        \<and> (tr2 = tr @ [InventoryLevelSet (shopify_location_id d) i
                         (cint (actual_qty d) - cint (reserved_qty d)) r]
            \<or> (\<exists>u. tr2 = tr @ [InventoryLevelSet (shopify_location_id d) i
                                 (cint (actual_qty d) - cint (reserved_qty d)) r,
                               UpdateSyncStatus (ecom_item d) s u]))"
  by (auto simp add: push_level_def Let_def split: option.splits)

text \<open>
  Claim C2. For a row that reaches the push step (its location resolves, it has a variant
  id, the lookup returns a variant with an inventory item id), the row makes exactly one
  set-inventory-level call, and the quantity of that call is the truncation of
  \<open>actual_qty\<close> minus the truncation of \<open>reserved_qty\<close>, each operand truncated towards
  zero before the subtraction.
\<close>

theorem pushed_quantity_truncates:
  assumes "lookup_location wm (warehouse d) = Some loc"
    and "variant_id d = Some v" and "v \<noteq> []"
    and "Variant_find e tr v = Inr var"
    and "inventory_item_id var = Some i" and "i \<noteq> 0"
  shows "\<exists>r. filter is_set_level (drop (length tr) (fst (snd (process_row e synced_on wm d tr))))
           = [InventoryLevelSet (Some loc) i
                ((if 0 \<le> actual_qty d then \<lfloor>actual_qty d\<rfloor> else \<lceil>actual_qty d\<rceil>)
                  - (if 0 \<le> reserved_qty d then \<lfloor>reserved_qty d\<rfloor> else \<lceil>reserved_qty d\<rceil>)) r]"
proof -
  let ?d1 = "d\<lparr>shopify_location_id := Some loc\<rparr>"
  let ?tr1 = "tr @ [VariantFind v (Inr var)]"
  let ?q = "cint (actual_qty d) - cint (reserved_qty d)"
  obtain d2 tr2 fl where pl: "push_level e synced_on i ?d1 ?tr1 = (d2, tr2, fl)"
    by (metis prod_cases3)
  have tb: "try_body e synced_on ?d1 tr = (d2, tr2, fl)"
    using assms pl by (simp add: try_body_def)
  from push_level_cases [OF pl] obtain r where
    tr2: "tr2 = ?tr1 @ [InventoryLevelSet (Some loc) i ?q r]
          \<or> (\<exists>u. tr2 = ?tr1 @ [InventoryLevelSet (Some loc) i ?q r,
                               UpdateSyncStatus (ecom_item d) synced_on u])"
    by auto
  then have f2: "filter is_set_level (drop (length tr) tr2) = [InventoryLevelSet (Some loc) i ?q r]"
    by auto
  have "\<exists>rest. fst (snd (process_row e synced_on wm d tr)) = tr2 @ rest
           \<and> filter is_set_level rest = []"
    using assms tb
    by (cases fl)
       (auto simp add: process_row_def commit_after_def handle_not_found_def
          handle_exception_def Let_def split: option.splits)
  then obtain rest where
    "fst (snd (process_row e synced_on wm d tr)) = tr2 @ rest" "filter is_set_level rest = []"
    by blast
  moreover have "length tr \<le> length tr2"
    using tr2 by auto
  ultimately have
    "filter is_set_level (drop (length tr) (fst (snd (process_row e synced_on wm d tr))))
      = [InventoryLevelSet (Some loc) i ?q r]"
    using f2 by simp
  then show ?thesis
    by (auto simp add: cint_def)
qed

text \<open>The example of the spec: 10.7 in stock and 3 reserved push 7.\<close>

theorem pushed_quantity_truncates_witness:
  "actual_qty row_a = 107 / 10 \<and> reserved_qty row_a = 3
   \<and> lookup_location wm_a (warehouse row_a) = Some 5
   \<and> variant_id row_a = Some ''V1''
   \<and> Variant_find env_all_ok [] ''V1'' = Inr \<lparr>inventory_item_id = Some 7\<rparr>
   \<and> (\<exists>r. filter is_set_level (drop (length ([]::event list))
              (fst (snd (process_row env_all_ok t0 wm_a row_a []))))
          = [InventoryLevelSet (Some 5) 7 7 r])"
proof -
  have h: "variant_id row_a = Some ''V1''" "''V1'' \<noteq> []"
    "Variant_find env_all_ok [] ''V1'' = Inr \<lparr>inventory_item_id = Some 7\<rparr>"
    "inventory_item_id \<lparr>inventory_item_id = Some 7\<rparr> = Some 7" "(7::int) \<noteq> 0"
    by (simp_all add: row_a_def env_all_ok_def)
  have q: "actual_qty row_a = 107 / 10" "reserved_qty row_a = 3"
    by (simp_all add: row_a_def)
  have "(if 0 \<le> actual_qty row_a then \<lfloor>actual_qty row_a\<rfloor> else \<lceil>actual_qty row_a\<rceil>)
          - (if 0 \<le> reserved_qty row_a then \<lfloor>reserved_qty row_a\<rfloor> else \<lceil>reserved_qty row_a\<rceil>) = 7"
    by (simp add: q floor_row_a)
  then show ?thesis
    using pushed_quantity_truncates [OF lookup_wm_a h, of t0] lookup_wm_a h(1,3) q
    by simp
qed


lemma commit_row_and_continue_eq:
  "commit_row_and_continue e d s tr
     = (tr @ sync_attempt e d s tr @ [DbCommit (db_commit e (tr @ sync_attempt e d s tr))],
        db_commit e (tr @ sync_attempt e d s tr))"
  by (simp add: commit_row_and_continue_def sync_attempt_def Let_def)

lemma sync_attempt_cong:
  "ecom_item d' = ecom_item d \<Longrightarrow> sync_attempt e d' s tr = sync_attempt e d s tr"
  by (simp add: sync_attempt_def)

lemma marks_sync_attempt: "marks (sync_attempt e d s tr) = []"
  by (simp add: sync_attempt_def)







lemma no_location_iff:
  "lookup_location wm wh = None
     \<longleftrightarrow> wm wh = None \<or> (\<exists>v. wm wh = Some v \<and> py_int v = None)"
  by (auto simp add: lookup_location_def split: option.splits)

lemma sublist_no_location: "sublist (warehouse d) (no_location_reason d)"
  unfolding no_location_reason_def by (rule sublist_append_leftI)

text \<open>
  Claim C7, as the code has it. The claim says that the sync-time update is attempted
  for every such row and that the pusher continues with the next row. The update is
  guarded by the row having an ecom item (line 58), and the commit that follows it is
  outside every handler (line 62, called from line 96). What holds is this: a row whose
  warehouse is absent from the location map, or whose mapped id does not cast to an
  integer, gets status \<open>Failed\<close> and a reason that contains its warehouse identifier.
  For a row with an ecom item the sync-time update is attempted next, and whatever it
  does, raising included, is dropped; for a row without one no update is attempted.
  Then the commit is called. When it returns, the batch goes on with the next row; when
  it raises, its exception leaves the row and the rows after it are not processed.
\<close>

theorem unmapped_warehouse_row:
  assumes "wm (warehouse d) = None \<or> (\<exists>v. wm (warehouse d) = Some v \<and> py_int v = None)"
  shows "case process_row e synced_on wm d tr of
           (d', tr', r) \<Rightarrow>
             status d' = Some ''Failed''
             \<and> (\<exists>reason. failure_reason d' = Some reason
                   \<and> reason = ''No numeric Shopify Location for ERP Warehouse: '' @ warehouse d
                   \<and> sublist (warehouse d) reason)
             \<and> tr' = tr @ sync_attempt e d synced_on tr @ [DbCommit r]
             \<and> r = db_commit e (tr @ sync_attempt e d synced_on tr)
             \<and> (truthy (ecom_item d) \<longrightarrow>
                  sync_attempt e d synced_on tr
                    = [UpdateSyncStatus (ecom_item d) synced_on
                         (update_inventory_sync_status e tr (ecom_item d) synced_on)])
             \<and> (\<not> truthy (ecom_item d) \<longrightarrow> sync_attempt e d synced_on tr = [])
             \<and> process_rows e synced_on wm (d # ds) tr
                 = (case r of
                      None \<Rightarrow>
                        (case process_rows e synced_on wm ds tr' of
                           (ds', tr'', r') \<Rightarrow> (d' # ds', tr'', r'))
                    | Some y \<Rightarrow> (d' # ds, tr', Some y))"
proof -
  have l: "lookup_location wm (warehouse d) = None"
    using assms by (simp add: no_location_iff)
  let ?sa = "sync_attempt e d synced_on tr"
  have "sync_attempt e (mark_failed (no_location_reason d) d) synced_on tr = ?sa"
    by (rule sync_attempt_cong) (simp add: mark_failed_def)
  then have p: "process_row e synced_on wm d tr
        = (mark_failed (no_location_reason d) d, tr @ ?sa @ [DbCommit (db_commit e (tr @ ?sa))],
           db_commit e (tr @ ?sa))"
    using l by (simp add: process_row_def commit_row_and_continue_eq)
  have "no_location_reason d = ''No numeric Shopify Location for ERP Warehouse: '' @ warehouse d"
    by (simp add: no_location_reason_def)
  moreover have "truthy (ecom_item d) \<longrightarrow>
      ?sa = [UpdateSyncStatus (ecom_item d) synced_on
               (update_inventory_sync_status e tr (ecom_item d) synced_on)]"
    "\<not> truthy (ecom_item d) \<longrightarrow> ?sa = []"
    by (simp_all add: sync_attempt_def)
  ultimately show ?thesis
    using p sublist_no_location [of d]
    by (cases "db_commit e (tr @ ?sa)") (simp_all add: mark_failed_def)
qed

theorem unmapped_warehouse_row_witness:
  "wm_a (warehouse row_b) = None
   \<and> update_inventory_sync_status env_sync_fails [] (ecom_item row_b) t0
       = Some (Exception ''deadlock'')
   \<and> status (fst (process_row env_sync_fails t0 wm_a row_b [])) = Some ''Failed''
   \<and> fst (snd (process_row env_sync_fails t0 wm_a row_b []))
       = [UpdateSyncStatus (Some ''EI-2'') t0 (Some (Exception ''deadlock'')), DbCommit None]
   \<and> snd (snd (process_row env_sync_fails t0 wm_a row_b [])) = None"
proof -
  have h: "wm_a (warehouse row_b) = None
           \<or> (\<exists>v. wm_a (warehouse row_b) = Some v \<and> py_int v = None)"
    by (simp add: wm_a_def row_b_def row_a_def)
  have u: "update_inventory_sync_status env_sync_fails tr a t = Some (Exception ''deadlock'')"
    for tr a t
    by (simp add: env_sync_fails_def env_variant_gone_def env_all_ok_def)
  have c: "db_commit env_sync_fails tr = None" for tr
    by (simp add: env_sync_fails_def env_variant_gone_def env_all_ok_def)
  have ei: "ecom_item row_b = Some ''EI-2''" "wm_a (warehouse row_b) = None"
    by (simp_all add: row_b_def row_a_def wm_a_def)
  have sa: "sync_attempt env_sync_fails row_b t0 []
      = [UpdateSyncStatus (Some ''EI-2'') t0 (Some (Exception ''deadlock''))]"
    using ei(1) u by (simp add: sync_attempt_def)
  obtain d' tr' r where p: "process_row env_sync_fails t0 wm_a row_b [] = (d', tr', r)"
    by (metis prod_cases3)
  have "status d' = Some ''Failed''
        \<and> tr' = [] @ sync_attempt env_sync_fails row_b t0 [] @ [DbCommit r]
        \<and> r = db_commit env_sync_fails ([] @ sync_attempt env_sync_fails row_b t0 [])"
    using unmapped_warehouse_row
        [where wm = wm_a and d = row_b and e = env_sync_fails and synced_on = t0
           and tr = "[]" and ds = "[]", OF h]
    unfolding p by simp
  then show ?thesis
    using u c ei sa p by simp
qed

text \<open>
  The two runs that refute claim C7 as it is stated. A row without an ecom item, whose
  warehouse is not in the map, makes the commit and no sync-time update. And when the
  commit of such a row raises, the pusher does not continue: the exception leaves the
  row and the next row of the batch has no status.
\<close>

theorem unmapped_warehouse_row_counterexample:
  "wm_a (warehouse row_ne) = None
   \<and> fst (snd (process_row env_all_ok t0 wm_a row_ne [])) = [DbCommit None]
   \<and> wm_a (warehouse row_b) = None
   \<and> snd (snd (process_rows env_commit_fails t0 wm_a [row_b, row_a] []))
       = Some (Exception ''database is gone'')
   \<and> status (fst (process_rows env_commit_fails t0 wm_a [row_b, row_a] []) ! 1) = None"
proof -
  have w: "wm_a (warehouse row_ne) = None" "wm_a (warehouse row_b) = None"
    by (simp_all add: wm_a_def row_ne_def row_b_def row_a_def)
  then have "lookup_location wm_a (warehouse row_ne) = None"
    by (simp add: lookup_location_def)
  then have "fst (snd (process_row env_all_ok t0 wm_a row_ne [])) = [DbCommit None]"
    by (simp add: process_row_def commit_row_and_continue_def Let_def mark_failed_def
        row_ne_def env_all_ok_def)
  moreover have "process_rows env_commit_fails t0 wm_a [row_b, row_a] []
     = ([mark_failed (no_location_reason row_b) row_b, row_a],
        [UpdateSyncStatus (Some ''EI-2'') t0 None,
         DbCommit (Some (Exception ''database is gone''))],
        Some (Exception ''database is gone''))"
    using commit_fails_row by simp
  moreover have "status row_a = None"
    by (simp add: row_a_def)
  ultimately show ?thesis
    using w by simp
qed


section \<open>Properties of the batch logger\<close>

lemma success_count_le: "success_count ds \<le> length ds"
  by (simp add: success_count_def)

lemma success_count_all:
  "success_count ds = length ds \<longleftrightarrow> (\<forall>d \<in> set ds. status d = Some ''Success'')"
proof -
  have "length (filter (\<lambda>d. status d = Some ''Success'') ds)
          + length (filter (\<lambda>d. \<not> status d = Some ''Success'') ds) = length ds"
    by (rule sum_length_filter_compl)
  then have "success_count ds = length ds
               \<longleftrightarrow> length (filter (\<lambda>d. \<not> status d = Some ''Success'') ds) = 0"
    unfolding success_count_def by arith
  then show ?thesis
    by (simp add: filter_empty_conv)
qed

lemma success_count_some:
  "0 < success_count ds \<longleftrightarrow> (\<exists>d \<in> set ds. status d = Some ''Success'')"
  by (simp add: success_count_def filter_empty_conv)

lemma pct_nonempty:
  assumes "ds \<noteq> []"
  shows "pct ds = of_nat (success_count ds) / of_nat (length ds)"
proof -
  have "max (length ds) 1 = length ds"
    using assms by (cases ds) simp_all
  then show ?thesis
    by (simp add: pct_def)
qed

lemma pct_one:
  assumes "ds \<noteq> []"
  shows "pct ds = 1 \<longleftrightarrow> (\<forall>d \<in> set ds. status d = Some ''Success'')"
proof -
  have "length ds \<noteq> 0"
    using assms by simp
  then have "pct ds = 1 \<longleftrightarrow> success_count ds = length ds"
    using assms by (auto simp add: pct_nonempty)
  then show ?thesis
    by (simp add: success_count_all)
qed

lemma pct_pos:
  assumes "ds \<noteq> []"
  shows "0 < pct ds \<longleftrightarrow> (\<exists>d \<in> set ds. status d = Some ''Success'')"
proof -
  have "0 < length ds"
    using assms by simp
  then have "0 < pct ds \<longleftrightarrow> 0 < success_count ds"
    using assms by (simp add: pct_nonempty zero_less_divide_iff)
  then show ?thesis
    by (simp add: success_count_some)
qed

text \<open>
  Claim C5. For a batch that is not empty the logger makes exactly one call of the log
  sink. Its status is \<open>Success\<close> when every row has status \<open>Success\<close>, \<open>Partial Success\<close>
  when some but not all rows have it, and \<open>Failed\<close> when none has it. Its message starts
  with the percentage of successful rows, 100 times their number over the number of
  rows, as Python prints a float, followed by the table of the rows.
\<close>

theorem log_batch_status_contract:
  assumes "ds \<noteq> []"
  shows "\<exists>st msg.
           log_batch_status e ds tr
             = (tr @ [ShopifyLog st msg (create_shopify_log e tr st msg)],
                create_shopify_log e tr st msg)
           \<and> st = (if \<forall>d \<in> set ds. status d = Some ''Success'' then ''Success''
                   else if \<exists>d \<in> set ds. status d = Some ''Success'' then ''Partial Success''
                   else ''Failed'')
           \<and> msg = ''Updated ''
                     @ float_repr e (100 * of_nat (success_count ds) / of_nat (length ds))
                     @ ''% items'' @ newline @ newline @ log_message ds"
proof -
  have "batch_status ds
          = (if \<forall>d \<in> set ds. status d = Some ''Success'' then ''Success''
             else if \<exists>d \<in> set ds. status d = Some ''Success'' then ''Partial Success''
             else ''Failed'')"
    unfolding batch_status_def pct_one [OF assms] pct_pos [OF assms] ..
  moreover have "batch_log_text e ds
          = ''Updated '' @ float_repr e (100 * of_nat (success_count ds) / of_nat (length ds))
              @ ''% items'' @ newline @ newline @ log_message ds"
    by (simp add: batch_log_text_def pct_nonempty [OF assms] mult.commute)
  ultimately show ?thesis
    by (simp add: log_batch_status_def Let_def)
qed

lemma repr_75: "repr_one_decimal 75 = ''75.0''"
  by code_simp

lemma success_count_batch4: "success_count batch4 = 3"
  by (simp add: success_count_def batch4_def row_ok_def row_bad_def)

text \<open>The example of the spec: four rows, three of them successful.\<close>

theorem log_batch_status_contract_witness:
  "batch4 \<noteq> []
   \<and> map status batch4
       = [Some ''Success'', Some ''Success'', Some ''Failed'', Some ''Success'']
   \<and> log_batch_status env_all_ok batch4 []
       = ([ShopifyLog ''Partial Success''
             (''Updated 75.0% items'' @ newline @ newline @ log_message batch4) None],
          None)"
proof -
  have n: "batch4 \<noteq> []"
    by (simp add: batch4_def)
  have s: "map status batch4
       = [Some ''Success'', Some ''Success'', Some ''Failed'', Some ''Success'']"
    by (simp add: batch4_def row_ok_def row_bad_def)
  have a: "\<not> (\<forall>d \<in> set batch4. status d = Some ''Success'')"
    "\<exists>d \<in> set batch4. status d = Some ''Success''"
    by (simp_all add: batch4_def row_ok_def row_bad_def)
  have l: "length batch4 = 4"
    by (simp add: batch4_def)
  have f: "float_repr env_all_ok (100 * of_nat (success_count batch4) / of_nat (length batch4))
             = ''75.0''"
    by (simp add: env_all_ok_def success_count_batch4 l repr_75)
  have c: "create_shopify_log env_all_ok tr st msg = None" for tr st msg
    by (simp add: env_all_ok_def)
  from log_batch_status_contract [OF n, of env_all_ok "[]"]
  have "log_batch_status env_all_ok batch4 []
       = ([ShopifyLog ''Partial Success''
             (''Updated '' @ ''75.0'' @ ''% items'' @ newline @ newline @ log_message batch4) None],
          None)"
    unfolding f c using a by auto
  then show ?thesis
    using n s by simp
qed

text \<open>The empty batch, which the pusher never logs, counts as failed with 0 percent.\<close>

lemma log_batch_status_empty:
  "batch_status [] = ''Failed'' \<and> pct [] = 0"
  by (simp add: batch_status_def pct_def success_count_def)


section \<open>Properties of the loops of the batch pusher\<close>


























section \<open>Batches, commits and log entries of a run\<close>



















text \<open>120 rows make two batches of 50 and one of 20.\<close>

lemma create_batch_120:
  "map length (create_batch (replicate 120 row_a) 50) = [50, 50, 20]"
  by code_simp


section \<open>Properties of the eligibility filter\<close>

lemma set_ecom_names:
  "set (List.map_filter (\<lambda>d. if truthy (ecom_item d) then ecom_item d else None) ds)
     = {n. n \<noteq> [] \<and> (\<exists>d \<in> set ds. ecom_item d = Some n)}"
proof (induction ds)
  case Nil
  show ?case by (simp add: List.map_filter_simps)
next
  case (Cons d ds)
  show ?case
  proof (cases "ecom_item d")
    case None
    then show ?thesis
      using Cons.IH by (auto simp add: List.map_filter_simps)
  next
    case (Some n)
    then show ?thesis
      using Cons.IH by (auto simp add: List.map_filter_simps)
  qed
qed

text \<open>What the dictionary comprehension holds, when no two rows have the same name.\<close>

lemma map_of_dict_of:
  "distinct (map ei_name rs) \<Longrightarrow>
     map_of (dict_of rs acc) k = Some c
       \<longleftrightarrow> (\<exists>r \<in> set rs. ei_name r = k \<and> erpnext_item_code r = Some c \<and> c \<noteq> [])
           \<or> ((\<forall>r \<in> set rs. ei_name r = k \<longrightarrow>
                  erpnext_item_code r = None \<or> erpnext_item_code r = Some [])
               \<and> map_of acc k = Some c)"
proof (induction rs arbitrary: acc)
  case Nil
  show ?case by simp
next
  case (Cons r rs)
  have d: "distinct (map ei_name rs)"
    using Cons.prems by simp
  have "ei_name r \<notin> ei_name ` set rs"
    using Cons.prems by simp
  then have n: "\<forall>r' \<in> set rs. ei_name r' \<noteq> ei_name r"
    by (metis imageI)
  show ?case
  proof (cases "\<exists>c0. erpnext_item_code r = Some c0 \<and> c0 \<noteq> []")
    case False
    then have "dict_of (r # rs) acc = dict_of rs acc"
      by (cases "erpnext_item_code r") auto
    moreover have "erpnext_item_code r = None \<or> erpnext_item_code r = Some []"
      using False by (cases "erpnext_item_code r") auto
    ultimately show ?thesis
      using Cons.IH [OF d, of acc] by auto
  next
    case True
    then obtain c0 where c0: "erpnext_item_code r = Some c0" "c0 \<noteq> []"
      by blast
    then have eq: "dict_of (r # rs) acc = dict_of rs (AList.update (ei_name r) c0 acc)"
      by simp
    show ?thesis
    proof (cases "k = ei_name r")
      case True
      then show ?thesis
        unfolding eq using Cons.IH [OF d, of "AList.update (ei_name r) c0 acc"] n c0
        by (auto simp add: update_conv')
    next
      case False
      then show ?thesis
        unfolding eq using Cons.IH [OF d, of "AList.update (ei_name r) c0 acc"] c0
        by (auto simp add: update_conv')
    qed
  qed
qed

lemma in_get_all_item:
  "c \<in> set (get_all_item dbs names) \<longleftrightarrow> c \<in> set names \<and> sync_enabled dbs c"
  by (auto simp add: get_all_item_def sync_enabled_def)

lemma filter_row_eligible:
  assumes "distinct (map ei_name (ecommerce_item_table dbs))"
    and "d \<in> set ds"
  shows "in_allowed
           (dict_get
              (dict_of (get_all_ecommerce_item dbs
                          (List.map_filter
                             (\<lambda>d. if truthy (ecom_item d) then ecom_item d else None) ds) M) [])
              (ecom_item d))
           (get_all_item dbs
              (map snd
                 (dict_of (get_all_ecommerce_item dbs
                             (List.map_filter
                                (\<lambda>d. if truthy (ecom_item d) then ecom_item d else None) ds) M)
                    [])))
         \<longleftrightarrow> eligible M dbs d"
proof -
  let ?names = "List.map_filter (\<lambda>d. if truthy (ecom_item d) then ecom_item d else None) ds"
  let ?rows = "get_all_ecommerce_item dbs ?names M"
  let ?dict = "dict_of ?rows []"
  have dist: "distinct (map ei_name ?rows)"
    unfolding get_all_ecommerce_item_def by (rule distinct_map_filter [OF assms(1)])
  have look: "map_of ?dict k = Some c
      \<longleftrightarrow> (\<exists>r \<in> set ?rows. ei_name r = k \<and> erpnext_item_code r = Some c \<and> c \<noteq> [])" for k c
    using map_of_dict_of [OF dist, of "[]" k c] by simp
  have val: "c \<in> set (map snd ?dict)" if "map_of ?dict k = Some c" for k c
    using map_of_SomeD [OF that] by force
  show ?thesis
  proof (cases "ecom_item d")
    case None
    then show ?thesis
      by (simp add: dict_get_def in_allowed_def eligible_def)
  next
    case (Some n)
    have mem: "n \<in> set ?names \<longleftrightarrow> n \<noteq> []"
      using assms(2) Some by (auto simp add: set_ecom_names)
    have "in_allowed (dict_get ?dict (ecom_item d)) (get_all_item dbs (map snd ?dict))
        \<longleftrightarrow> (\<exists>c. map_of ?dict n = Some c \<and> sync_enabled dbs c)"
      using Some val [of n]
      by (auto simp add: dict_get_def in_allowed_def in_get_all_item split: option.splits)
    also have "\<dots> \<longleftrightarrow> (\<exists>c. (\<exists>r \<in> set ?rows. ei_name r = n \<and> erpnext_item_code r = Some c \<and> c \<noteq> [])
                         \<and> sync_enabled dbs c)"
      by (simp add: look)
    also have "\<dots> \<longleftrightarrow> eligible M dbs d"
      using Some mem
      by (auto simp add: eligible_def get_all_ecommerce_item_def split: option.splits)
    finally show ?thesis .
  qed
qed

text \<open>
  Claim C8. Where the names of the ecom items are unique (the name is the key of the
  table), the filter returns exactly the rows that are eligible in the words of the
  spec, in their order: the ecom-item reference is set, the ecom item of that name
  belongs to the integration and has an ERP item code, and the item of that code is
  flagged for sync and not disabled. Every kept row has an ecom-item reference. An input
  with no row, or with no ecom-item reference, gives no row and makes no query.
\<close>

theorem filter_to_flagged_items_contract:
  assumes "distinct (map ei_name (ecommerce_item_table dbs))"
  shows "fst (filter_to_flagged_items M dbs ds) = filter (eligible M dbs) ds
         \<and> subseq (fst (filter_to_flagged_items M dbs ds)) ds
         \<and> (\<forall>d \<in> set (fst (filter_to_flagged_items M dbs ds)). truthy (ecom_item d))
         \<and> ((\<forall>d \<in> set ds. \<not> truthy (ecom_item d)) \<longrightarrow>
               filter_to_flagged_items M dbs ds = ([], []))"
proof -
  let ?names = "List.map_filter (\<lambda>d. if truthy (ecom_item d) then ecom_item d else None) ds"
  have none: "filter_to_flagged_items M dbs ds = ([], [])
              \<and> filter (eligible M dbs) ds = []"
    if "\<forall>d \<in> set ds. \<not> truthy (ecom_item d)"
  proof -
    have "set ?names = {}"
      using that by (auto simp add: set_ecom_names)
    then have "?names = []"
      by simp
    moreover have "filter (eligible M dbs) ds = []"
      using that by (simp add: filter_empty_conv eligible_def)
    ultimately show ?thesis
      by (simp add: filter_to_flagged_items_def)
  qed
  have main: "fst (filter_to_flagged_items M dbs ds) = filter (eligible M dbs) ds"
  proof (cases "\<forall>d \<in> set ds. \<not> truthy (ecom_item d)")
    case True
    then show ?thesis
      using none by simp
  next
    case False
    then obtain d n where "d \<in> set ds" "ecom_item d = Some n" "n \<noteq> []"
      by (metis truthy.elims(2))
    then have "n \<in> set ?names"
      by (auto simp add: set_ecom_names)
    then have "?names \<noteq> []" "ds \<noteq> []"
      using \<open>d \<in> set ds\<close> by auto
    then have "fst (filter_to_flagged_items M dbs ds)
        = filter (\<lambda>d. in_allowed
                        (dict_get (dict_of (get_all_ecommerce_item dbs ?names M) []) (ecom_item d))
                        (get_all_item dbs
                           (map snd (dict_of (get_all_ecommerce_item dbs ?names M) [])))) ds"
      by (simp add: filter_to_flagged_items_def Let_def)
    also have "\<dots> = filter (eligible M dbs) ds"
      by (rule filter_cong [OF refl]) (rule filter_row_eligible [OF assms])
    finally show ?thesis .
  qed
  have "\<forall>d \<in> set (filter (eligible M dbs) ds). truthy (ecom_item d)"
    by (simp add: eligible_def)
  then show ?thesis
    using main none by simp
qed

lemma code_db_a:
  "filter_to_flagged_items ''shopify'' db_a rows_a
     = ([row_a],
        [GetAllEcommerceItem [''EI-1'', ''EI-2'', ''EI-3''] ''shopify'',
         GetAllItem [''ITEM-1'', ''ITEM-2'']])"
  by code_simp

theorem filter_to_flagged_items_contract_witness:
  "distinct (map ei_name (ecommerce_item_table db_a))
   \<and> fst (filter_to_flagged_items ''shopify'' db_a rows_a) = filter (eligible ''shopify'' db_a) rows_a
   \<and> filter (eligible ''shopify'' db_a) rows_a = [row_a]
   \<and> filter_to_flagged_items ''shopify'' db_a [row_a\<lparr>ecom_item := None\<rparr>] = ([], [])"
proof -
  have h: "distinct (map ei_name (ecommerce_item_table db_a))"
    by (simp add: db_a_def)
  have n: "\<forall>d \<in> set [row_a\<lparr>ecom_item := None\<rparr>]. \<not> truthy (ecom_item d)"
    by simp
  show ?thesis
    using filter_to_flagged_items_contract [OF h, of "''shopify''" rows_a]
      filter_to_flagged_items_contract [OF h, of "''shopify''" "[row_a\<lparr>ecom_item := None\<rparr>]"]
      h n code_db_a
    by simp
qed

end
